theory Spec2Isabelle
  imports Complex_Main
begin

section \<open>Errors and the command-line record\<close>

text \<open>
  The exceptions that the modelled code can raise. \<open>ZeroDivisionError\<close> comes from
  Python's own \<open>//\<close> and \<open>/\<close>; \<open>FileNotFoundError\<close> from loading a checkpoint that
  is not on disk; \<open>RuntimeError\<close> and \<open>ValueError\<close> from the tensor and metric
  libraries; \<open>ConfigurationError\<close> and \<open>ShapeMismatchError\<close> are the two classes of the
  model's own taxonomy.
\<close>

datatype py_error =
    ZeroDivisionError
  | FileNotFoundError
  | RuntimeError
  | ValueError
  | ConfigurationError
  | ShapeMismatchError

text \<open>
  The namespace that \<open>argparse\<close> builds in \<open>main.py\<close>: one field per
  \<open>add_argument\<close>, with the declared type (\<open>int\<close> is Python's unbounded integer).
\<close>

record cli_args =
  pos_embed :: string
  max_relative_distance :: int
  epochs :: int
  warmup_epochs :: int
  batch_size :: int
  n_classes :: int
  n_workers :: int
  lr :: real
  output_path :: string
  dataset :: string
  image_size :: int
  patch_size :: int
  data_path :: string
  model_path :: string
  load_model :: bool
  precision :: string

text \<open>
  \<open>update_args\<close> adds two attributes to the namespace; the record of the updated
  namespace extends the parsed one.
\<close>

record args = cli_args +
  n_patches :: int
  is_cuda :: bool

text \<open>
  The configuration record as the specification describes it carries five further
  fields that \<open>main.py\<close> never defines. Every function of \<open>solver.py\<close> below is
  written over the extensible record, so it accepts this record as well.
\<close>

record config = args +
  embed_dim :: int
  n_layers :: int
  n_attention_heads :: int
  forward_mul :: int
  dropout :: real

section \<open>main.py\<close>

text \<open>
  \<open>os.path.join\<close> for two components on a POSIX system: an absolute second
  component replaces the first; otherwise the two are joined by one separator unless
  the first is empty or already ends in one.
\<close>

definition os_path_join :: "string \<Rightarrow> string \<Rightarrow> string" where
  "os_path_join a b =
     (if take 1 b = ''/'' then b
      else if a = [] \<or> last a = CHR ''/'' then a @ b
      else a @ ''/'' @ b)"

text \<open>
  \<open>update_args\<close>. The availability of a GPU is the environment's answer to
  \<open>torch.cuda.is_available()\<close> and is a parameter; the floor division raises when
  \<open>patch_size\<close> is zero. The two \<open>print\<close> calls do not touch the namespace.
\<close>

definition update_args :: "bool \<Rightarrow> cli_args \<Rightarrow> py_error + args" where
  "update_args cuda_available a =
     (if patch_size a = 0 then Inl ZeroDivisionError
      else Inr (cli_args.extend
             (a\<lparr>model_path := os_path_join (model_path a) (dataset a),
                output_path := os_path_join (output_path a) (dataset a)\<rparr>)
             (args.fields ((image_size a div patch_size a) ^ 2) cuda_available)))"

text \<open>The defaults that the parser of \<open>main.py\<close> declares.\<close>

definition default_cli_args :: cli_args where
  "default_cli_args =
     \<lparr>pos_embed = ''learn'', max_relative_distance = 2, epochs = 200, warmup_epochs = 10,
      batch_size = 128, n_classes = 10, n_workers = 4, lr = 5 / 10000,
      output_path = ''./outputs'', dataset = ''cifar10'', image_size = 32, patch_size = 4,
      data_path = ''./data/'', model_path = ''./model'', load_model = False,
      precision = ''float32''\<rparr>"

section \<open>solver.py: construction of the model and checkpoint files\<close>

text \<open>The keyword arguments of the call \<open>VisionTransformer(...)\<close> in \<open>Solver.__init__\<close>.\<close>

record vit_kwargs =
  kw_n_channels :: int
  kw_embed_dim :: int
  kw_n_layers :: int
  kw_n_attention_heads :: int
  kw_forward_mul :: int
  kw_image_size :: int
  kw_patch_size :: int
  kw_dropout :: real
  kw_n_classes :: int
  kw_pos_embed :: string
  kw_max_relative_distance :: int

definition Solver_model_kwargs :: "'z args_scheme \<Rightarrow> vit_kwargs" where
  "Solver_model_kwargs a =
     \<lparr>kw_n_channels = 3, kw_embed_dim = 128, kw_n_layers = 6, kw_n_attention_heads = 4,
      kw_forward_mul = 2, kw_image_size = 32, kw_patch_size = 4, kw_dropout = 1 / 10,
      kw_n_classes = n_classes a, kw_pos_embed = pos_embed a,
      kw_max_relative_distance = max_relative_distance a\<rparr>"

text \<open>
  The file that \<open>Solver.train\<close> writes after every epoch, and the file that
  \<open>Solver.__init__\<close> reads when \<open>load_model\<close> is set.
\<close>

definition checkpoint_save_path :: "'z args_scheme \<Rightarrow> string" where
  "checkpoint_save_path a =
     os_path_join (model_path a) (''ViT_model_'' @ pos_embed a @ ''.pt'')"

definition checkpoint_load_path :: "'z args_scheme \<Rightarrow> string" where
  "checkpoint_load_path a = os_path_join (model_path a) ''ViT_model.pt''"

text \<open>
  The disk holds parameter snapshots by path. \<open>torch.save\<close> overwrites the entry,
  \<open>torch.load\<close> raises when there is none.
\<close>

type_synonym 'p disk = "string \<rightharpoonup> 'p"

definition torch_save :: "'p disk \<Rightarrow> 'p \<Rightarrow> string \<Rightarrow> 'p disk" where
  "torch_save d p path = d(path \<mapsto> p)"

definition torch_load :: "'p disk \<Rightarrow> string \<Rightarrow> py_error + 'p" where
  "torch_load d path = (case d path of None \<Rightarrow> Inl FileNotFoundError | Some p \<Rightarrow> Inr p)"

section \<open>solver.py: evaluation\<close>

text \<open>
  Python floats that the solver compares or averages: a number or NaN (the mean of an
  empty sample). Infinities do not arise for accuracies and are left out.
\<close>

datatype pyfloat = Num real | NaN

fun py_gt :: "pyfloat \<Rightarrow> pyfloat \<Rightarrow> bool" where
  "py_gt (Num a) (Num b) = (b < a)"
| "py_gt _ _ = False"

text \<open>Python's \<open>max(a, b)\<close>: the first argument unless the second is greater.\<close>

definition py_max :: "pyfloat \<Rightarrow> pyfloat \<Rightarrow> pyfloat" where
  "py_max a b = (if py_gt b a then b else a)"

fun py_add :: "pyfloat \<Rightarrow> pyfloat \<Rightarrow> pyfloat" where
  "py_add (Num a) (Num b) = Num (a + b)"
| "py_add _ _ = NaN"

definition py_sum :: "pyfloat list \<Rightarrow> pyfloat" where
  "py_sum xs = foldl py_add (Num 0) xs"

fun py_truediv :: "pyfloat \<Rightarrow> nat \<Rightarrow> py_error + pyfloat" where
  "py_truediv v 0 = Inl ZeroDivisionError"
| "py_truediv (Num a) n = Inr (Num (a / real n))"
| "py_truediv NaN n = Inr NaN"

text \<open>The mean of a 0/1 tensor: NaN when the tensor is empty.\<close>

definition mean_bools :: "bool list \<Rightarrow> pyfloat" where
  "mean_bools bs =
     (if bs = [] then NaN else Num (real (length (filter id bs)) / real (length bs)))"

text \<open>What the solver prints, one event per \<open>print\<close> call, with the values it formats.\<close>

datatype event =
    Message string
  | TrainMetrics pyfloat pyfloat
  | TestMetrics pyfloat pyfloat
  | BestAcc pyfloat
  | BatchLog nat int nat nat pyfloat pyfloat

type_synonym 'x loader = "('x \<times> int list) list"

text \<open>
  The code that \<open>solver.py\<close> calls and that is not part of it: the model class, the loss,
  the optimiser and its schedulers. \<open>'p\<close> is a parameter snapshot (a state dict), \<open>'x\<close>
  a batch of images, \<open>'o\<close> the state of the optimiser and schedulers. \<open>model_call\<close> is
  \<open>self.model(x)\<close> in the given mode (\<open>True\<close> for training) on the solver's device
  and precision; logits are one row of class scores per sample. A forward pass reads
  the parameters and does not change them; \<open>optimizer_step\<close> stands for
  \<open>zero_grad\<close>, \<open>backward\<close> and \<open>step\<close> together. The random choices of dropout
  in training mode and the reshuffling of a loader between epochs are not modelled: a
  loader is the sequence of batches (images, labels) that one pass over it yields.
\<close>

record ('p, 'x, 'o) torch_env =
  vit_init :: "vit_kwargs \<Rightarrow> py_error + 'p"
  load_state_dict :: "'p \<Rightarrow> 'p \<Rightarrow> py_error + 'p"
  model_call :: "bool \<Rightarrow> 'p \<Rightarrow> 'x \<Rightarrow> py_error + real list list"
  loss_fn :: "real list list \<Rightarrow> int list \<Rightarrow> py_error + pyfloat"
  adamw_init :: "'p \<Rightarrow> real \<Rightarrow> py_error + 'o"
  schedulers_init :: "'o \<Rightarrow> real \<Rightarrow> int \<Rightarrow> int \<Rightarrow> py_error + 'o"
  optimizer_step :: "'o \<Rightarrow> 'p \<Rightarrow> 'x \<Rightarrow> int list \<Rightarrow> py_error + 'o \<times> 'p"
  scheduler_step :: "bool \<Rightarrow> 'o \<Rightarrow> 'o"

text \<open>The attributes of a \<open>Solver\<close> object; \<open>params\<close> and \<open>training\<close> are the model's.\<close>

record ('p, 'x, 'z) solver =
  s_args :: "'z args_scheme"
  train_loader :: "'x loader"
  test_loader :: "'x loader"
  params :: 'p
  training :: bool
  train_losses :: "pyfloat list"
  test_losses :: "pyfloat list"
  train_accuracies :: "pyfloat list"
  test_accuracies :: "pyfloat list"

text \<open>\<open>torch.cat\<close> along the first dimension; it rejects an empty list of tensors.\<close>

definition torch_cat :: "'a list list \<Rightarrow> py_error + 'a list" where
  "torch_cat ts = (if ts = [] then Inl RuntimeError else Inr (concat ts))"

text \<open>\<open>t.max(1)[1]\<close>: per row, the position of the largest score.\<close>

fun argmax_from :: "nat \<Rightarrow> real \<Rightarrow> nat \<Rightarrow> real list \<Rightarrow> nat" where
  "argmax_from bi bv i [] = bi"
| "argmax_from bi bv i (v # vs) =
     (if bv < v then argmax_from i v (Suc i) vs else argmax_from bi bv (Suc i) vs)"

definition row_argmax :: "real list list \<Rightarrow> py_error + int list" where
  "row_argmax rows =
     (if [] \<in> set rows then Inl RuntimeError
      else Inr (map (\<lambda>r. int (argmax_from 0 (hd r) 1 (tl r))) rows))"

text \<open>
  \<open>sklearn.metrics.accuracy_score\<close>: the fraction of positions where prediction and
  label agree; the two must have the same number of samples.
\<close>

definition accuracy_score :: "int list \<Rightarrow> int list \<Rightarrow> py_error + pyfloat" where
  "accuracy_score y_true y_pred =
     (if length y_true \<noteq> length y_pred then Inl ValueError
      else Inr (mean_bools (map2 (=) y_true y_pred)))"

text \<open>The loop of \<open>test_dataset\<close>: one forward pass per batch, results appended.\<close>

fun test_loop ::
  "('p, 'x, 'o) torch_env \<Rightarrow> bool \<Rightarrow> 'p \<Rightarrow> 'x loader \<Rightarrow> int list list \<Rightarrow> real list list list
     \<Rightarrow> py_error + int list list \<times> real list list list" where
  "test_loop env mode p [] all_labels all_logits = Inr (all_labels, all_logits)"
| "test_loop env mode p ((x, y) # rest) all_labels all_logits =
     (case model_call env mode p x of
        Inl e \<Rightarrow> Inl e
      | Inr logits \<Rightarrow> test_loop env mode p rest (all_labels @ [y]) (all_logits @ [logits]))"

definition test_dataset ::
  "('p, 'x, 'o) torch_env \<Rightarrow> ('p, 'x, 'z) solver \<Rightarrow> 'x loader
     \<Rightarrow> py_error + (pyfloat \<times> pyfloat) \<times> ('p, 'x, 'z) solver" where
  "test_dataset env s loader =
     (let s1 = s\<lparr>training := False\<rparr> in
      case test_loop env (training s1) (params s1) loader [] [] of
        Inl e \<Rightarrow> Inl e
      | Inr (all_labels, all_logits) \<Rightarrow>
     (case torch_cat all_labels of
        Inl e \<Rightarrow> Inl e
      | Inr labels \<Rightarrow>
     (case torch_cat all_logits of
        Inl e \<Rightarrow> Inl e
      | Inr logits \<Rightarrow>
     (case row_argmax logits of
        Inl e \<Rightarrow> Inl e
      | Inr all_pred \<Rightarrow>
     (case loss_fn env logits labels of
        Inl e \<Rightarrow> Inl e
      | Inr loss \<Rightarrow>
     (case accuracy_score labels all_pred of
        Inl e \<Rightarrow> Inl e
      | Inr acc \<Rightarrow> Inr ((acc, loss), s1)))))))"

text \<open>
  \<open>Solver.test\<close>. An exception ends the program, so the result is the returned pair
  with the solver, or the error, together with what was printed until then.
\<close>

definition test ::
  "('p, 'x, 'o) torch_env \<Rightarrow> ('p, 'x, 'z) solver \<Rightarrow> bool
     \<Rightarrow> (py_error + (pyfloat \<times> pyfloat) \<times> ('p, 'x, 'z) solver) \<times> event list" where
  "test env s train =
     (case (if train
            then (case test_dataset env s (train_loader s) of
                    Inl e \<Rightarrow> (Inl e, [])
                  | Inr ((acc, loss), s1) \<Rightarrow> (Inr s1, [TrainMetrics acc loss]))
            else (Inr s, [])) of
        (Inl e, out) \<Rightarrow> (Inl e, out)
      | (Inr s1, out) \<Rightarrow>
          (case test_dataset env s1 (test_loader s1) of
             Inl e \<Rightarrow> (Inl e, out)
           | Inr ((acc, loss), s2) \<Rightarrow> (Inr ((acc, loss), s2), out @ [TestMetrics acc loss])))"

section \<open>solver.py: construction and training\<close>

text \<open>
  \<open>Solver.__init__\<close>, after \<open>get_loader(args)\<close> has returned the two loaders. A new
  module is in training mode. With \<open>load_model\<close> set, the snapshot is read from
  \<open>checkpoint_load_path\<close> and installed by \<open>load_state_dict\<close>.
\<close>

definition Solver_init ::
  "('p, 'x, 'o) torch_env \<Rightarrow> 'p disk \<Rightarrow> 'z args_scheme \<Rightarrow> 'x loader \<Rightarrow> 'x loader
     \<Rightarrow> (py_error + ('p, 'x, 'z) solver) \<times> event list" where
  "Solver_init env d a trl tel =
     (case vit_init env (Solver_model_kwargs a) of
        Inl e \<Rightarrow> (Inl e, [])
      | Inr p \<Rightarrow>
          (let mk = (\<lambda>q. \<lparr>s_args = a, train_loader = trl, test_loader = tel, params = q,
                           training = True, train_losses = [], test_losses = [],
                           train_accuracies = [], test_accuracies = []\<rparr>)
           in if load_model a
              then (case torch_load d (checkpoint_load_path a) of
                      Inl e \<Rightarrow> (Inl e, [Message ''Using pretrained model''])
                    | Inr sd \<Rightarrow>
                        (case load_state_dict env p sd of
                           Inl e \<Rightarrow> (Inl e, [Message ''Using pretrained model''])
                         | Inr q \<Rightarrow> (Inr (mk q), [Message ''Using pretrained model''])))
              else (Inr (mk p), [])))"

text \<open>\<open>y == batch_pred\<close> on one-dimensional tensors, with broadcasting of a single element.\<close>

definition torch_eq :: "int list \<Rightarrow> int list \<Rightarrow> py_error + bool list" where
  "torch_eq a b =
     (if length a = length b then Inr (map2 (=) a b)
      else if length a = 1 then Inr (map (\<lambda>v. hd a = v) b)
      else if length b = 1 then Inr (map (\<lambda>v. v = hd b) a)
      else Inl RuntimeError)"

text \<open>
  The inner loop of \<open>Solver.train\<close> over the batches of one epoch. The state is the
  optimiser, the solver and the two lists of batch metrics; \<open>i\<close> counts the batches.
\<close>

fun train_batches ::
  "('p, 'x, 'o) torch_env \<Rightarrow> nat \<Rightarrow> int \<Rightarrow> nat \<Rightarrow> nat \<Rightarrow> 'x loader
     \<Rightarrow> 'o \<times> ('p, 'x, 'z) solver \<times> pyfloat list \<times> pyfloat list
     \<Rightarrow> (py_error + 'o \<times> ('p, 'x, 'z) solver \<times> pyfloat list \<times> pyfloat list) \<times> event list"
  where
  "train_batches env epoch n_epochs iters i [] st = (Inr st, [])"
| "train_batches env epoch n_epochs iters i ((x, y) # rest) (opt, s, losses, accs) =
     (case model_call env (training s) (params s) x of
        Inl e \<Rightarrow> (Inl e, [])
      | Inr logits \<Rightarrow>
     (case loss_fn env logits y of
        Inl e \<Rightarrow> (Inl e, [])
      | Inr loss \<Rightarrow>
     (case optimizer_step env opt (params s) x y of
        Inl e \<Rightarrow> (Inl e, [])
      | Inr (opt1, p1) \<Rightarrow>
     (case row_argmax logits of
        Inl e \<Rightarrow> (Inl e, [])
      | Inr batch_pred \<Rightarrow>
     (case torch_eq y batch_pred of
        Inl e \<Rightarrow> (Inl e, [])
      | Inr eqs \<Rightarrow>
          (let batch_accuracy = mean_bools eqs;
               out = (if i mod 50 = 0 \<or> int i = int iters - 1
                      then [BatchLog (epoch + 1) n_epochs (i + 1) iters loss batch_accuracy]
                      else [])
           in case train_batches env epoch n_epochs iters (Suc i) rest
                     (opt1, s\<lparr>params := p1\<rparr>, losses @ [loss], accs @ [batch_accuracy]) of
                (r, out1) \<Rightarrow> (r, out @ out1)))))))"

text \<open>
  One pass of the epoch loop: training, the test after the epoch, the best accuracy
  and its line, the checkpoint, the scheduler, the four progress lists. The result keeps
  the printed lines and the disk also when an exception ends the run.
\<close>

definition train_epoch ::
  "('p, 'x, 'o) torch_env \<Rightarrow> nat \<Rightarrow> 'o \<times> pyfloat \<times> 'p disk \<times> ('p, 'x, 'z) solver
     \<Rightarrow> (py_error + 'o \<times> pyfloat \<times> ('p, 'x, 'z) solver) \<times> event list \<times> 'p disk" where
  "train_epoch env epoch st =
     (case st of (opt, best_acc, d, s) \<Rightarrow>
      (let a = s_args s; iters = length (train_loader s); s1 = s\<lparr>training := True\<rparr> in
       case train_batches env epoch (epochs a) iters 0 (train_loader s1) (opt, s1, [], []) of
         (Inl e, out) \<Rightarrow> (Inl e, out, d)
       | (Inr (opt1, s2, losses, accs), out) \<Rightarrow>
      (case test env s2 ((epoch + 1) mod 25 = 0) of
         (Inl e, out2) \<Rightarrow> (Inl e, out @ out2, d)
       | (Inr ((test_acc, test_loss), s3), out2) \<Rightarrow>
          (let best1 = py_max test_acc best_acc;
               out3 = out @ out2 @ [BestAcc best1];
               d1 = torch_save d (params s3) (checkpoint_save_path a);
               opt2 = scheduler_step env (int epoch < warmup_epochs a) opt1
           in case py_truediv (py_sum losses) iters of
                Inl e \<Rightarrow> (Inl e, out3, d1)
              | Inr mean_loss \<Rightarrow>
             (case py_truediv (py_sum accs) iters of
                Inl e \<Rightarrow> (Inl e, out3, d1)
              | Inr mean_acc \<Rightarrow>
                  (Inr (opt2, best1,
                        s3\<lparr>train_losses := train_losses s3 @ [mean_loss],
                           test_losses := test_losses s3 @ [test_loss],
                           train_accuracies := train_accuracies s3 @ [mean_acc],
                           test_accuracies := test_accuracies s3 @ [test_acc]\<rparr>),
                   out3, d1))))))"

fun train_loop ::
  "('p, 'x, 'o) torch_env \<Rightarrow> nat list \<Rightarrow> 'o \<times> pyfloat \<times> 'p disk \<times> ('p, 'x, 'z) solver
     \<Rightarrow> (py_error + ('p, 'x, 'z) solver) \<times> event list \<times> 'p disk" where
  "train_loop env [] st = (case st of (opt, best_acc, d, s) \<Rightarrow> (Inr s, [], d))"
| "train_loop env (epoch # rest) st =
     (case train_epoch env epoch st of
        (Inl e, out, d1) \<Rightarrow> (Inl e, out, d1)
      | (Inr (opt1, best1, s1), out, d1) \<Rightarrow>
          (case train_loop env rest (opt1, best1, d1, s1) of
             (r, out1, d2) \<Rightarrow> (r, out @ out1, d2)))"

text \<open>
  \<open>Solver.train\<close>: the optimiser, the two schedulers (whose start factor divides by
  \<open>warmup_epochs\<close>), \<open>best_acc = 0\<close>, then the loop over \<open>range(epochs)\<close>.
\<close>

definition train ::
  "('p, 'x, 'o) torch_env \<Rightarrow> 'p disk \<Rightarrow> ('p, 'x, 'z) solver
     \<Rightarrow> (py_error + ('p, 'x, 'z) solver) \<times> event list \<times> 'p disk" where
  "train env d s =
     (let a = s_args s in
      case adamw_init env (params s) (lr a) of
        Inl e \<Rightarrow> (Inl e, [], d)
      | Inr opt \<Rightarrow>
          if warmup_epochs a = 0 then (Inl ZeroDivisionError, [], d)
          else (case schedulers_init env opt (1 / real_of_int (warmup_epochs a))
                       (warmup_epochs a - 1) (epochs a - warmup_epochs a) of
                  Inl e \<Rightarrow> (Inl e, [], d)
                | Inr opt1 \<Rightarrow> train_loop env [0..<nat (epochs a)] (opt1, Num 0, d, s)))"

text \<open>The values of the lines of one kind, in the order they were printed.\<close>

fun best_accs :: "event list \<Rightarrow> pyfloat list" where
  "best_accs [] = []"
| "best_accs (BestAcc b # es) = b # best_accs es"
| "best_accs (_ # es) = best_accs es"

fun test_accs :: "event list \<Rightarrow> pyfloat list" where
  "test_accs [] = []"
| "test_accs (TestMetrics acc loss # es) = acc # test_accs es"
| "test_accs (_ # es) = test_accs es"

section \<open>Auxiliary notions for the statements\<close>

text \<open>
  Modelled from the spec: the length of the token sequence, which \<open>vit_model.py\<close>
  (not among the sources) builds from the patches: the patch vectors plus one prepended
  classification token.
\<close>

definition sequence_length :: "int \<Rightarrow> int" where
  "sequence_length n = n + 1"

text \<open>
  A configuration record with every field of the specification's record, each of the
  seven architecture fields different from the literal in \<open>Solver.__init__\<close>.
\<close>

definition wide_config :: config where
  "wide_config =
     args.extend
       (cli_args.extend (default_cli_args\<lparr>image_size := 64, patch_size := 8\<rparr>)
          (args.fields 64 False))
       (config.fields 256 12 8 4 (1 / 2))"

text \<open>The number of samples that one pass over a loader yields.\<close>

definition n_samples :: "'x loader \<Rightarrow> nat" where
  "n_samples L = sum_list (map (\<lambda>b. length (snd b)) L)"

text \<open>
  The accumulation \<open>best_acc = max(test_acc, best_acc)\<close> over a sequence of accuracies
  from a start value, and the maximum of every non-empty prefix of a sequence.
\<close>

fun run_max :: "real \<Rightarrow> real list \<Rightarrow> real list" where
  "run_max b [] = []"
| "run_max b (a # as) = max a b # run_max (max a b) as"

definition running_max :: "real list \<Rightarrow> real list" where
  "running_max xs = map (\<lambda>k. Max (set (take (Suc k) xs))) [0..<length xs]"

text \<open>
  A small concrete instance on which the functions above can be run: one weight, two
  classes, images that are single numbers, an optimiser step that adds one to the
  weight. Over three epochs the test accuracy is 1/2, 1, 1/2.
\<close>

definition toy_env :: "(real, real list, unit) torch_env" where
  "toy_env =
     \<lparr>vit_init = (\<lambda>kw. Inr 0), load_state_dict = (\<lambda>p sd. Inr sd),
      model_call = (\<lambda>mode p x. Inr (map (\<lambda>v. [0, v - p]) x)),
      loss_fn = (\<lambda>logits labels. Inr (Num 0)),
      adamw_init = (\<lambda>p r. Inr ()), schedulers_init = (\<lambda>opt f n m. Inr opt),
      optimizer_step = (\<lambda>opt p x y. Inr (opt, p + 1)),
      scheduler_step = (\<lambda>b opt. opt)\<rparr>"

definition toy_args :: args where
  "toy_args = cli_args.extend (default_cli_args\<lparr>epochs := 3, warmup_epochs := 1\<rparr>)
                (args.fields 64 False)"

definition toy_solver :: "(real, real list, unit) solver" where
  "toy_solver =
     \<lparr>s_args = toy_args, train_loader = [([5 / 2, 3 / 2], [1, 0])],
      test_loader = [([5 / 2, 3 / 2], [1, 0])], params = 0, training = True,
      train_losses = [], test_losses = [], train_accuracies = [], test_accuracies = []\<rparr>"

section \<open>vit_model.py, modelled from the specification\<close>

text \<open>
  Modelled from the spec: the configuration record of the model and the five
  positional-embedding variants. \<open>vit_model.py\<close> is not among the sources; this
  section follows the specification's description of it.
\<close>

datatype pos_variant = PosNone | PosLearn | PosSinusoidal | PosRelative | PosRope

text \<open>
  Modelled from the spec: the configuration record that \<open>vit_model.py\<close> (not
  among the sources) consumes, with the variant as an enumeration.
\<close>

record model_config =
  mc_pos_embed :: pos_variant
  mc_max_relative_distance :: int
  mc_embed_dim :: int
  mc_n_layers :: int
  mc_n_attention_heads :: int
  mc_forward_mul :: int
  mc_image_size :: int
  mc_patch_size :: int
  mc_dropout :: real
  mc_n_classes :: int

text \<open>
  Modelled from the spec: the positional embedding constructed in \<open>vit_model.py\<close>
  (not among the sources), a tagged union whose
  variants own their parameters: the learned matrix, the fixed sinusoidal matrix, the
  relative table with its distance bound; none and rope have no parameters.
\<close>

datatype pos_module =
    NoPE
  | LearnPE "real list list"
  | SinusoidalPE "real list list"
  | RelativePE int "real list list"
  | RopePE

text \<open>
  Modelled from the spec: the angle of \<open>vit_model.py\<close> (not among the sources),
  \<open>pos / 10000^(2i/dim)\<close>, shared by the sinusoidal
  table and the rope rotation, and the table \<open>S[pos, 2i] = sin\<close>, \<open>S[pos, 2i+1] = cos\<close>.
\<close>

definition pos_angle :: "nat \<Rightarrow> nat \<Rightarrow> nat \<Rightarrow> real" where
  "pos_angle d pos i = real pos / 10000 powr (real (2 * i) / real d)"

text \<open>
  Modelled from the spec: one entry of the sinusoidal matrix of
  \<open>vit_model.py\<close> (not among the sources): sine in even columns, cosine in
  odd ones.
\<close>

definition sinusoidal_entry :: "nat \<Rightarrow> nat \<Rightarrow> nat \<Rightarrow> real" where
  "sinusoidal_entry d pos c =
     (if even c then sin (pos_angle d pos (c div 2)) else cos (pos_angle d pos (c div 2)))"

text \<open>
  Modelled from the spec: the sinusoidal matrix of \<open>vit_model.py\<close> (not
  among the sources), one row per position.
\<close>

definition sinusoidal_table :: "nat \<Rightarrow> nat \<Rightarrow> real list list" where
  "sinusoidal_table len d = map (\<lambda>pos. map (sinusoidal_entry d pos) [0..<d]) [0..<len]"

text \<open>
  Modelled from the spec: the construction, in \<open>vit_model.py\<close> (not among the
  sources), of the positional embedding for a checked
  configuration. \<open>rnd\<close> supplies the initial values of trainable entries by row and
  column. The sequence has one position per patch and one for the classification token.
\<close>

definition init_matrix :: "(nat \<Rightarrow> nat \<Rightarrow> real) \<Rightarrow> nat \<Rightarrow> nat \<Rightarrow> real list list" where
  "init_matrix rnd rows cols = map (\<lambda>r. map (rnd r) [0..<cols]) [0..<rows]"

text \<open>
  Modelled from the spec: the sequence length that \<open>vit_model.py\<close> (not
  among the sources) derives from image and patch size.
\<close>

definition config_seq_len :: "model_config \<Rightarrow> nat" where
  "config_seq_len c = nat (sequence_length ((mc_image_size c div mc_patch_size c) ^ 2))"

text \<open>
  Modelled from the spec: the head dimension of \<open>vit_model.py\<close> (not among
  the sources), \<open>embed_dim / n_heads\<close>.
\<close>

definition config_head_dim :: "model_config \<Rightarrow> int" where
  "config_head_dim c = mc_embed_dim c div mc_n_attention_heads c"

text \<open>
  Modelled from the spec: the choice of the positional embedding by variant in
  \<open>vit_model.py\<close> (not among the sources).
\<close>

definition make_pos :: "(nat \<Rightarrow> nat \<Rightarrow> real) \<Rightarrow> model_config \<Rightarrow> pos_module" where
  "make_pos rnd c =
     (case mc_pos_embed c of
        PosNone \<Rightarrow> NoPE
      | PosLearn \<Rightarrow> LearnPE (init_matrix rnd (config_seq_len c) (nat (mc_embed_dim c)))
      | PosSinusoidal \<Rightarrow> SinusoidalPE (sinusoidal_table (config_seq_len c) (nat (mc_embed_dim c)))
      | PosRelative \<Rightarrow>
          RelativePE (mc_max_relative_distance c)
            (init_matrix rnd (nat (2 * mc_max_relative_distance c + 1)) (nat (config_head_dim c)))
      | PosRope \<Rightarrow> RopePE)"

text \<open>
  Modelled from the spec: the class \<open>VisionTransformer\<close> of \<open>vit_model.py\<close> (not
  among the sources), the constructed model and its constructor with the
  configuration checks of the error taxonomy: heads that do not divide the embedding
  dimension, an odd embedding dimension under sinusoidal or rope, a head dimension
  below two under relative or rope. \<open>'w\<close> stands for the remaining weights.
\<close>

record 'w vit =
  vit_config :: model_config
  vit_pos :: pos_module
  vit_weights :: 'w

text \<open>
  Modelled from the spec: the constructor of \<open>VisionTransformer\<close> in
  \<open>vit_model.py\<close> (not among the sources).
\<close>

definition VisionTransformer_init ::
  "(nat \<Rightarrow> nat \<Rightarrow> real) \<Rightarrow> 'w \<Rightarrow> model_config \<Rightarrow> py_error + 'w vit" where
  "VisionTransformer_init rnd w0 c =
     (if \<not> mc_n_attention_heads c dvd mc_embed_dim c then Inl ConfigurationError
      else if (mc_pos_embed c = PosSinusoidal \<or> mc_pos_embed c = PosRope) \<and> odd (mc_embed_dim c)
      then Inl ConfigurationError
      else if (mc_pos_embed c = PosRelative \<or> mc_pos_embed c = PosRope) \<and> config_head_dim c < 2
      then Inl ConfigurationError
      else Inr \<lparr>vit_config = c, vit_pos = make_pos rnd c, vit_weights = w0\<rparr>)"

text \<open>
  Modelled from the spec: the forward pass of \<open>vit_model.py\<close> (not among the sources)
  on one image (channels of rows of pixels). It
  raises \<open>ShapeMismatchError\<close> when the image is not three square channels of the
  configured size, and has no other error; \<open>core\<close> is the numerical transform from a
  well-shaped image to the logits.
\<close>

definition image_shape_ok :: "model_config \<Rightarrow> real list list list \<Rightarrow> bool" where
  "image_shape_ok c img =
     (length img = 3 \<and>
      list_all (\<lambda>ch. length ch = nat (mc_image_size c)
                  \<and> list_all (\<lambda>row. length row = nat (mc_image_size c)) ch) img)"

text \<open>
  Modelled from the spec: the forward pass of \<open>VisionTransformer\<close> in
  \<open>vit_model.py\<close> (not among the sources).
\<close>

definition vit_forward ::
  "('w vit \<Rightarrow> real list list list \<Rightarrow> real list) \<Rightarrow> 'w vit \<Rightarrow> real list list list
     \<Rightarrow> py_error + real list" where
  "vit_forward core m img =
     (if image_shape_ok (vit_config m) img then Inr (core m img) else Inl ShapeMismatchError)"

text \<open>
  Modelled from the spec: the application of a positional embedding in
  \<open>vit_model.py\<close> (not among the sources). A sequence of shape (L, d) is a list of L
  rows of d numbers.
  The additive variants add their matrix to the sequence elementwise; the other three
  leave the patch vectors as they are and act inside attention.
\<close>

definition has_shape :: "nat \<Rightarrow> nat \<Rightarrow> real list list \<Rightarrow> bool" where
  "has_shape L d xs = (length xs = L \<and> list_all (\<lambda>row. length row = d) xs)"

text \<open>
  Modelled from the spec: the elementwise addition of a position matrix in
  \<open>vit_model.py\<close> (not among the sources); shapes must agree.
\<close>

definition add_positions :: "real list list \<Rightarrow> real list list \<Rightarrow> py_error + real list list" where
  "add_positions seq P =
     (if map length seq = map length P then Inr (map2 (map2 (+)) seq P)
      else Inl ShapeMismatchError)"

text \<open>
  Modelled from the spec: the operation \<open>apply\<close> of the positional
  embeddings of \<open>vit_model.py\<close> (not among the sources).
\<close>

fun apply_pos :: "pos_module \<Rightarrow> real list list \<Rightarrow> py_error + real list list" where
  "apply_pos NoPE seq = Inr seq"
| "apply_pos (LearnPE P) seq = add_positions seq P"
| "apply_pos (SinusoidalPE S) seq = add_positions seq S"
| "apply_pos (RelativePE k R) seq = Inr seq"
| "apply_pos RopePE seq = Inr seq"

text \<open>
  Modelled from the spec: the relative index of \<open>vit_model.py\<close> (not among the
  sources), \<open>clip(j - i, -k, k) + k\<close> for a pair of
  positions, with the clamp of the tensor library (lower bound first, then upper).
\<close>

definition clip :: "int \<Rightarrow> int \<Rightarrow> int \<Rightarrow> int" where
  "clip x lo hi = min (max x lo) hi"

text \<open>
  Modelled from the spec: the relative index of \<open>vit_model.py\<close> (not among
  the sources).
\<close>

definition relative_index :: "int \<Rightarrow> int \<Rightarrow> int \<Rightarrow> int" where
  "relative_index k i j = clip (j - i) (- k) k + k"

text \<open>
  Modelled from the spec: the rope rotation of \<open>vit_model.py\<close> (not among the
  sources) of one query or key vector at a position.
  Adjacent dimensions are paired and the i-th pair is turned by \<open>pos_angle d pos i\<close>.
\<close>

fun rope_pairs :: "nat \<Rightarrow> nat \<Rightarrow> nat \<Rightarrow> real list \<Rightarrow> real list" where
  "rope_pairs d pos i (x # y # rest) =
     (x * cos (pos_angle d pos i) - y * sin (pos_angle d pos i))
     # (x * sin (pos_angle d pos i) + y * cos (pos_angle d pos i))
     # rope_pairs d pos (Suc i) rest"
| "rope_pairs d pos i rest = rest"

text \<open>
  Modelled from the spec: the rope rotation of a whole vector in
  \<open>vit_model.py\<close> (not among the sources); the dimension in the angle is the
  length of the vector.
\<close>

definition rope_rotate :: "nat \<Rightarrow> real list \<Rightarrow> real list" where
  "rope_rotate pos v = rope_pairs (length v) pos 0 v"

text \<open>
  Modelled from the spec: the rope rotation of a sequence in \<open>vit_model.py\<close>
  (not among the sources); the row number is the position, the classification token at
  position 0.
\<close>

definition rope_seq :: "real list list \<Rightarrow> real list list" where
  "rope_seq Q = map2 rope_rotate [0..<length Q] Q"

text \<open>
  Modelled from the spec: the Euclidean norm of a query or key vector of
  \<open>vit_model.py\<close> (not among the sources).
\<close>

definition euclidean_norm :: "real list \<Rightarrow> real" where
  "euclidean_norm v = sqrt (\<Sum>x\<leftarrow>v. x\<^sup>2)"

text \<open>
  Modelled from the spec: one attention head of \<open>vit_model.py\<close> (not among the
  sources) on queries, keys and values of shape
  (L, head_dim): \<open>softmax(Q K^T / sqrt(head_dim) + bias) V\<close>. The bias is zero unless the
  variant is relative, where it is the product of the query with the table row of the
  relative index; rope turns queries and keys before the product.
\<close>

definition dot :: "real list \<Rightarrow> real list \<Rightarrow> real" where
  "dot u v = sum_list (map2 (*) u v)"

text \<open>
  Modelled from the spec: the softmax of one row of attention logits in
  \<open>vit_model.py\<close> (not among the sources).
\<close>

definition softmax :: "real list \<Rightarrow> real list" where
  "softmax row = map (\<lambda>s. exp s / sum_list (map exp row)) row"

text \<open>
  Modelled from the spec: the additive bias of the attention logit of positions i and j
  in \<open>vit_model.py\<close> (not among the sources).
\<close>

definition attention_bias :: "pos_module \<Rightarrow> real list \<Rightarrow> nat \<Rightarrow> nat \<Rightarrow> real" where
  "attention_bias pm q i j =
     (case pm of
        RelativePE k R \<Rightarrow> dot q (R ! nat (relative_index k (int i) (int j)))
      | _ \<Rightarrow> 0)"

text \<open>
  Modelled from the spec: the attention logits of one head in
  \<open>vit_model.py\<close> (not among the sources).
\<close>

definition attention_logits ::
  "pos_module \<Rightarrow> nat \<Rightarrow> real list list \<Rightarrow> real list list \<Rightarrow> real list list" where
  "attention_logits pm dh Q K =
     (let Q1 = (case pm of RopePE \<Rightarrow> rope_seq Q | _ \<Rightarrow> Q);
          K1 = (case pm of RopePE \<Rightarrow> rope_seq K | _ \<Rightarrow> K)
      in map (\<lambda>i. map (\<lambda>j. dot (Q1 ! i) (K1 ! j) / sqrt (real dh)
                              + attention_bias pm (Q1 ! i) i j) [0..<length K1])
           [0..<length Q1])"

text \<open>
  Modelled from the spec: the output of one head in \<open>vit_model.py\<close> (not
  among the sources): the softmax weights applied to the values.
\<close>

definition attention_head ::
  "pos_module \<Rightarrow> nat \<Rightarrow> real list list \<Rightarrow> real list list \<Rightarrow> real list list \<Rightarrow> real list list"
  where
  "attention_head pm dh Q K V =
     map (\<lambda>w. map (\<lambda>c. sum_list (map2 (\<lambda>a v. a * v ! c) w V)) [0..<dh])
       (map softmax (attention_logits pm dh Q K))"

text \<open>
  Modelled from the spec: the multi-head attention of \<open>vit_model.py\<close> (not among the
  sources) on a sequence of shape (L, embed_dim).
  The projections are matrices given by their rows; the embedding is split into
  \<open>n_heads\<close> sub-vectors of \<open>head_dim\<close> entries, the heads' outputs are concatenated and
  projected back.
\<close>

definition linear :: "real list list \<Rightarrow> real list \<Rightarrow> real list" where
  "linear W x = map (\<lambda>row. dot row x) W"

text \<open>
  Modelled from the spec: the sub-vector of one head in \<open>vit_model.py\<close> (not
  among the sources).
\<close>

definition head_part :: "nat \<Rightarrow> nat \<Rightarrow> real list \<Rightarrow> real list" where
  "head_part dh h x = take dh (drop (h * dh) x)"

text \<open>
  Modelled from the spec: the multi-head attention of \<open>vit_model.py\<close> (not
  among the sources).
\<close>

definition multi_head_attention ::
  "pos_module \<Rightarrow> nat \<Rightarrow> nat \<Rightarrow> real list list \<Rightarrow> real list list \<Rightarrow> real list list
     \<Rightarrow> real list list \<Rightarrow> real list list \<Rightarrow> real list list" where
  "multi_head_attention pm n_heads dh Wq Wk Wv Wo X =
     (let Q = map (linear Wq) X; K = map (linear Wk) X; V = map (linear Wv) X;
          heads = map (\<lambda>h. attention_head pm dh (map (head_part dh h) Q)
                              (map (head_part dh h) K) (map (head_part dh h) V))
                    [0..<n_heads]
      in map (\<lambda>i. linear Wo (concat (map (\<lambda>hd_out. hd_out ! i) heads))) [0..<length X])"

text \<open>
  Modelled from the spec: for \<open>vit_model.py\<close> (not among the sources), the condition
  that the additive parameters of a positional embedding are sized
  for sequences of shape (L, d), as construction makes them.
\<close>

definition pos_fits :: "pos_module \<Rightarrow> nat \<Rightarrow> nat \<Rightarrow> bool" where
  "pos_fits pm L d =
     (case pm of LearnPE P \<Rightarrow> has_shape L d P | SinusoidalPE S \<Rightarrow> has_shape L d S | _ \<Rightarrow> True)"

text \<open>
  Modelled from the spec: for \<open>vit_model.py\<close> (not among the sources), the
  configuration of the end-to-end scenario (32 by 32 images,
  patches of 4, four heads, ten classes), for a variant and an embedding dimension.
\<close>

definition scenario_config :: "pos_variant \<Rightarrow> int \<Rightarrow> model_config" where
  "scenario_config v e =
     \<lparr>mc_pos_embed = v, mc_max_relative_distance = 2, mc_embed_dim = e, mc_n_layers = 6,
      mc_n_attention_heads = 4, mc_forward_mul = 2, mc_image_size = 32, mc_patch_size = 4,
      mc_dropout = 1 / 10, mc_n_classes = 10\<rparr>"

section \<open>Properties of main.py and solver.py\<close>

subsection \<open>Helper lemmas\<close>

lemma test_dataset_mode:
  "test_dataset env (s\<lparr>training := b\<rparr>) L = test_dataset env s L"
  by (simp add: test_dataset_def)

lemma test_accs_append: "test_accs (xs @ ys) = test_accs xs @ test_accs ys"
  by (induction xs rule: test_accs.induct) simp_all

lemma best_accs_append: "best_accs (xs @ ys) = best_accs xs @ best_accs ys"
  by (induction xs rule: best_accs.induct) simp_all

lemma length_concat_labels: "length (concat (map snd L)) = n_samples L"
  by (induction L) (simp_all add: n_samples_def)

lemma test_loop_labels:
  "test_loop env m p L al ag = Inr (al', ag') \<Longrightarrow> al' = al @ map snd L"
proof (induction L arbitrary: al ag)
  case Nil
  then show ?case by simp
next
  case (Cons b L)
  obtain x y where b: "b = (x, y)" by (cases b)
  from Cons.prems obtain lg where
    "test_loop env m p L (al @ [y]) (ag @ [lg]) = Inr (al', ag')"
    unfolding b by (auto split: sum.splits)
  then have "al' = (al @ [y]) @ map snd L"
    by (rule Cons.IH)
  then show ?case
    by (simp add: b)
qed

lemma mean_bools_nonneg: "bs \<noteq> [] \<Longrightarrow> \<exists>a. mean_bools bs = Num a \<and> 0 \<le> a"
  by (simp add: mean_bools_def)

lemma test_dataset_state:
  "test_dataset env s L = Inr (m, s1) \<Longrightarrow> s1 = s\<lparr>training := False\<rparr>"
  by (auto simp add: test_dataset_def Let_def split: sum.splits prod.splits)

lemma test_dataset_acc:
  assumes "test_dataset env s L = Inr ((acc, loss), s1)"
    and "0 < n_samples L"
  shows "\<exists>a. acc = Num a \<and> 0 \<le> a"
proof -
  from assms(1) obtain al ag labels preds where
    tl: "test_loop env False (params s) L [] [] = Inr (al, ag)"
    and cat: "torch_cat al = Inr labels"
    and sc: "accuracy_score labels preds = Inr acc"
    by (auto simp add: test_dataset_def Let_def split: sum.splits prod.splits)
  from tl have "al = map snd L"
    using test_loop_labels by fastforce
  with cat have "labels = concat (map snd L)"
    by (auto simp add: torch_cat_def split: if_splits)
  then have "length labels = n_samples L"
    by (simp only: length_concat_labels)
  with assms(2) have ne: "labels \<noteq> []"
    by (cases labels) simp_all
  from sc have len: "length labels = length preds"
    and acc: "acc = mean_bools (map2 (=) labels preds)"
    by (auto simp add: accuracy_score_def split: if_splits)
  from ne len have "map2 (=) labels preds \<noteq> []"
    by (cases labels; cases preds) auto
  with acc show ?thesis
    using mean_bools_nonneg by blast
qed

lemma test_success:
  assumes "test env s tr = (Inr ((acc, loss), s'), out)"
  shows "test_accs out = [acc] \<and> best_accs out = [] \<and> s' = s\<lparr>training := False\<rparr>
     \<and> (0 < n_samples (test_loader s) \<longrightarrow> (\<exists>a. acc = Num a \<and> 0 \<le> a))"
proof (cases tr)
  case False
  with assms show ?thesis
    by (auto simp add: test_def split: sum.splits prod.splits
        dest: test_dataset_state test_dataset_acc)
next
  case True
  with assms obtain m s1 where ev: "test_dataset env s (train_loader s) = Inr (m, s1)"
    by (auto simp add: test_def split: sum.splits prod.splits)
  then have s1: "s1 = s\<lparr>training := False\<rparr>"
    by (rule test_dataset_state)
  from assms True ev s1 show ?thesis
    by (auto simp add: test_def split: sum.splits prod.splits
        dest: test_dataset_state test_dataset_acc)
qed

lemma test_failure:
  "test env s tr = (Inl e, out) \<Longrightarrow> test_accs out = [] \<and> best_accs out = []"
  by (auto simp add: test_def split: sum.splits prod.splits if_splits)

lemma train_batches_inv:
  "train_batches env ep n it i L (opt, s, ls, acs) = (r, out) \<Longrightarrow>
     test_accs out = [] \<and> best_accs out = []
     \<and> (\<forall>opt' s' ls' acs'. r = Inr (opt', s', ls', acs') \<longrightarrow> (\<exists>p. s' = s\<lparr>params := p\<rparr>))"
proof (induction L arbitrary: i opt s ls acs r out)
  case Nil
  then show ?case
    by (auto intro: exI [of _ "params s"])
next
  case (Cons b L)
  obtain x y where b: "b = (x, y)" by (cases b)
  show ?case
    using Cons.prems unfolding b
    by (auto simp add: Let_def test_accs_append best_accs_append
        split: sum.splits prod.splits if_splits dest!: Cons.IH)
qed


lemma py_max_Num: "py_max (Num a) (Num b) = Num (max a b)"
  by (simp add: py_max_def max_def)

lemma train_epoch_inv:
  assumes run: "train_epoch env ep (opt, Num b, d, s) = (r, out, d')"
    and samples: "0 < n_samples (test_loader s)"
  shows "(isl r \<and> test_accs out = [] \<and> best_accs out = [])
     \<or> (\<exists>a. 0 \<le> a \<and> test_accs out = [Num a] \<and> best_accs out = [Num (max a b)]
            \<and> (\<forall>opt' best' s'. r = Inr (opt', best', s') \<longrightarrow>
                  best' = Num (max a b) \<and> test_loader s' = test_loader s))"
proof -
  let ?s1 = "s\<lparr>training := True\<rparr>"
  obtain r1 out1 where tb:
    "train_batches env ep (epochs (s_args s)) (length (train_loader s)) 0 (train_loader s)
       (opt, ?s1, [], []) = (r1, out1)"
    by (cases "train_batches env ep (epochs (s_args s)) (length (train_loader s)) 0
          (train_loader s) (opt, ?s1, [], [])") auto
  note inv1 = train_batches_inv [OF tb]
  show ?thesis
  proof (cases r1)
    case (Inl e)
    with run tb inv1 show ?thesis
      by (auto simp add: train_epoch_def Let_def)
  next
    case (Inr st)
    obtain opt1 s2 losses accs where st: "st = (opt1, s2, losses, accs)"
      by (cases st) auto
    from inv1 Inr st obtain p where s2: "s2 = ?s1\<lparr>params := p\<rparr>"
      by auto
    obtain r2 out2 where te: "test env s2 ((ep + 1) mod 25 = 0) = (r2, out2)"
      by (cases "test env s2 ((ep + 1) mod 25 = 0)") auto
    show ?thesis
    proof (cases r2)
      case (Inl e)
      with te have "test_accs out2 = [] \<and> best_accs out2 = []"
        using test_failure by fastforce
      with run tb Inr st te Inl inv1 show ?thesis
        by (auto simp add: train_epoch_def Let_def test_accs_append best_accs_append)
    next
      case r2: (Inr res)
      obtain acc loss s3 where res: "res = ((acc, loss), s3)"
        by (cases res) auto
      from te r2 res have "test env s2 ((ep + 1) mod 25 = 0) = (Inr ((acc, loss), s3), out2)"
        by simp
      note ts = test_success [OF this]
      from samples s2 have "0 < n_samples (test_loader s2)"
        by simp
      with ts obtain a where a: "acc = Num a" "0 \<le> a"
        by auto
      from ts s2 have tl3: "test_loader s3 = test_loader s"
        by simp
      from run tb Inr st te r2 res inv1 ts a tl3 show ?thesis
        by (auto simp add: train_epoch_def Let_def test_accs_append best_accs_append
            py_max_Num split: sum.splits)
    qed
  qed
qed

lemma train_loop_inv:
  "train_loop env es (opt, Num b, d, s) = (r, out, d') \<Longrightarrow> 0 < n_samples (test_loader s) \<Longrightarrow>
     \<exists>accs. (\<forall>a\<in>set accs. 0 \<le> a) \<and> test_accs out = map Num accs
        \<and> best_accs out = map Num (run_max b accs)"
proof (induction es arbitrary: opt b d s r out d')
  case Nil
  then show ?case by auto
next
  case (Cons ep es)
  obtain r1 out1 d1 where ep: "train_epoch env ep (opt, Num b, d, s) = (r1, out1, d1)"
    by (cases "train_epoch env ep (opt, Num b, d, s)") auto
  from train_epoch_inv [OF ep Cons.prems(2)]
  consider (none) "isl r1" "test_accs out1 = []" "best_accs out1 = []"
    | (one) a where "0 \<le> a" "test_accs out1 = [Num a]" "best_accs out1 = [Num (max a b)]"
        "\<forall>opt' best' s'. r1 = Inr (opt', best', s') \<longrightarrow>
            best' = Num (max a b) \<and> test_loader s' = test_loader s"
    by blast
  then show ?case
  proof cases
    case none
    with Cons.prems(1) ep have "out = out1"
      by (cases r1) auto
    with none show ?thesis
      by (auto intro: exI [of _ "[]"])
  next
    case one
    show ?thesis
    proof (cases r1)
      case (Inl e)
      with Cons.prems(1) ep have "out = out1"
        by auto
      with one show ?thesis
        by (auto intro!: exI [of _ "[a]"])
    next
      case (Inr st)
      obtain opt1 best1 s1 where st: "st = (opt1, best1, s1)"
        by (cases st) auto
      from one(4) Inr st have best1: "best1 = Num (max a b)"
        and tl1: "test_loader s1 = test_loader s"
        by auto
      obtain r2 out2 d2 where
        rest: "train_loop env es (opt1, Num (max a b), d1, s1) = (r2, out2, d2)"
        by (cases "train_loop env es (opt1, Num (max a b), d1, s1)") auto
      from Cons.IH [OF rest] tl1 Cons.prems(2) obtain accs where
        accs: "\<forall>a\<in>set accs. 0 \<le> a" "test_accs out2 = map Num accs"
          "best_accs out2 = map Num (run_max (max a b) accs)"
        by auto
      from Cons.prems(1) ep Inr st best1 rest have "out = out1 @ out2"
        by auto
      with one accs show ?thesis
        by (auto simp add: test_accs_append best_accs_append intro!: exI [of _ "a # accs"])
    qed
  qed
qed

lemma Max_take_Cons:
  assumes "k < length xs"
  shows "Max (set (take (Suc (Suc k)) (a # xs))) = max a (Max (set (take (Suc k) xs)))"
proof -
  from assms have "set (take (Suc k) xs) \<noteq> {}"
    by (cases xs) auto
  then show ?thesis
    by simp
qed

lemma run_max_prefix:
  "run_max b xs = map (\<lambda>k. max b (Max (set (take (Suc k) xs)))) [0..<length xs]"
proof (induction xs arbitrary: b)
  case Nil
  then show ?case by simp
next
  case (Cons a xs)
  have upt: "[0..<length (a # xs)] = 0 # map Suc [0..<length xs]"
    by (simp add: upt_conv_Cons map_Suc_upt del: upt_Suc)
  have tl: "map (\<lambda>k. max (max a b) (Max (set (take (Suc k) xs)))) [0..<length xs]
      = map (\<lambda>k. max b (Max (set (take (Suc (Suc k)) (a # xs))))) [0..<length xs]"
  proof (rule map_cong [OF refl])
    fix k assume "k \<in> set [0..<length xs]"
    then have "k < length xs" by simp
    then show "max (max a b) (Max (set (take (Suc k) xs)))
        = max b (Max (set (take (Suc (Suc k)) (a # xs))))"
      using Max_take_Cons [of k xs a]
      by (simp add: max.assoc max.commute max.left_commute)
  qed
  show ?case
    unfolding upt
    by (simp add: Cons.IH tl max.commute comp_def del: upt_Suc)
qed

lemma Max_take_nonneg:
  assumes "\<forall>a\<in>set xs. (0::real) \<le> a" and "k < length xs"
  shows "0 \<le> Max (set (take (Suc k) xs))"
proof -
  from assms(2) have ne: "set (take (Suc k) xs) \<noteq> {}"
    by (cases xs) auto
  then have "Max (set (take (Suc k) xs)) \<in> set (take (Suc k) xs)"
    by (intro Max_in) simp_all
  then have "Max (set (take (Suc k) xs)) \<in> set xs"
    by (rule in_set_takeD)
  with assms(1) show ?thesis
    by blast
qed

lemma run_max_running_max:
  assumes "\<forall>a\<in>set xs. 0 \<le> a"
  shows "run_max 0 xs = running_max xs"
  unfolding run_max_prefix running_max_def
proof (rule map_cong [OF refl])
  fix k assume "k \<in> set [0..<length xs]"
  then have "k < length xs" by simp
  with assms have "0 \<le> Max (set (take (Suc k) xs))"
    by (rule Max_take_nonneg)
  then show "max 0 (Max (set (take (Suc k) xs))) = Max (set (take (Suc k) xs))"
    by simp
qed

lemma run_max_sorted: "sorted (run_max b xs) \<and> (\<forall>y\<in>set (run_max b xs). b \<le> y)"
  by (induction xs arbitrary: b) (auto simp add: max_def; force)+


lemma os_path_join_relative:
  "b \<noteq> [] \<Longrightarrow> hd b \<noteq> CHR ''/'' \<Longrightarrow>
   os_path_join a b = (if a = [] \<or> last a = CHR ''/'' then a else a @ ''/'') @ b"
  by (cases b) (simp_all add: os_path_join_def)

lemma checkpoint_paths_differ:
  "checkpoint_save_path a \<noteq> checkpoint_load_path a"
  by (simp add: checkpoint_save_path_def checkpoint_load_path_def os_path_join_relative)

lemma test_state:
  "test env s tr = (Inr (m, s'), out) \<Longrightarrow> s' = s\<lparr>training := False\<rparr>"
  using test_success [of env s tr "fst m" "snd m" s' out] by simp

lemma train_epoch_disk:
  assumes "train_epoch env ep (opt, best, d, s) = (r, out, d')"
  shows "(\<forall>path. path \<noteq> checkpoint_save_path (s_args s) \<longrightarrow> d' path = d path)
     \<and> (\<forall>opt' best' s'. r = Inr (opt', best', s') \<longrightarrow> s_args s' = s_args s)"
proof -
  let ?s1 = "s\<lparr>training := True\<rparr>"
  obtain r1 out1 where tb:
    "train_batches env ep (epochs (s_args s)) (length (train_loader s)) 0 (train_loader s)
       (opt, ?s1, [], []) = (r1, out1)"
    by (cases "train_batches env ep (epochs (s_args s)) (length (train_loader s)) 0
          (train_loader s) (opt, ?s1, [], [])") auto
  note inv1 = train_batches_inv [OF tb]
  show ?thesis
  proof (cases r1)
    case (Inl e)
    with assms tb show ?thesis
      by (auto simp add: train_epoch_def Let_def)
  next
    case (Inr st)
    obtain opt1 s2 losses accs where st: "st = (opt1, s2, losses, accs)"
      by (cases st) auto
    from inv1 Inr st obtain p where s2: "s2 = ?s1\<lparr>params := p\<rparr>"
      by auto
    obtain r2 out2 where te: "test env s2 ((ep + 1) mod 25 = 0) = (r2, out2)"
      by (cases "test env s2 ((ep + 1) mod 25 = 0)") auto
    show ?thesis
    proof (cases r2)
      case (Inl e)
      with assms tb Inr st te show ?thesis
        by (auto simp add: train_epoch_def Let_def)
    next
      case r2: (Inr res)
      obtain m s3 where res: "res = (m, s3)"
        by (cases res) auto
      from te r2 res have "s3 = s2\<lparr>training := False\<rparr>"
        using test_state by fastforce
      with s2 have a3: "s_args s3 = s_args s"
        by simp
      from assms tb Inr st te r2 res a3 show ?thesis
        by (auto simp add: train_epoch_def Let_def torch_save_def
            split: sum.splits prod.splits)
    qed
  qed
qed

lemma train_loop_disk:
  "train_loop env es (opt, best, d, s) = (r, out, d') \<Longrightarrow>
     path \<noteq> checkpoint_save_path (s_args s) \<Longrightarrow> d' path = d path"
proof (induction es arbitrary: opt best d s r out d')
  case Nil
  then show ?case by simp
next
  case (Cons ep es)
  obtain r1 out1 d1 where ep: "train_epoch env ep (opt, best, d, s) = (r1, out1, d1)"
    by (cases "train_epoch env ep (opt, best, d, s)") auto
  note inv = train_epoch_disk [OF ep]
  with Cons.prems(2) have d1: "d1 path = d path"
    by blast
  show ?case
  proof (cases r1)
    case (Inl e)
    with Cons.prems(1) ep d1 show ?thesis
      by auto
  next
    case (Inr st)
    obtain opt1 best1 s1 where st: "st = (opt1, best1, s1)"
      by (cases st) auto
    with inv Inr have a1: "s_args s1 = s_args s"
      by blast
    obtain r2 out2 d2 where
      rest: "train_loop env es (opt1, best1, d1, s1) = (r2, out2, d2)"
      by (cases "train_loop env es (opt1, best1, d1, s1)") auto
    from Cons.IH [OF rest] Cons.prems(2) a1 have "d2 path = d1 path"
      by simp
    moreover from Cons.prems(1) ep Inr st rest have "d' = d2"
      by auto
    ultimately show ?thesis
      using d1 by simp
  qed
qed

lemma train_loop_disk_snd:
  "path \<noteq> checkpoint_save_path (s_args s) \<Longrightarrow>
     snd (snd (train_loop env es (opt, best, d, s))) path = d path"
  using train_loop_disk [of env es opt best d s
      "fst (train_loop env es (opt, best, d, s))"
      "fst (snd (train_loop env es (opt, best, d, s)))"
      "snd (snd (train_loop env es (opt, best, d, s)))" path]
  by simp

lemma train_disk:
  "path \<noteq> checkpoint_save_path (s_args s) \<Longrightarrow> snd (snd (train env d s)) path = d path"
  by (simp add: train_def Let_def train_loop_disk_snd split: sum.splits)


subsection \<open>Checkpoint files\<close>

text \<open>
  C1 (fails on the code). The claim asks that the checkpoint written during training
  and the checkpoint read at construction are the same file for each variant. In the
  code the two paths differ for every argument record: training writes
  \<open>ViT_model_<pos_embed>.pt\<close>, construction reads \<open>ViT_model.pt\<close>. Training
  leaves the file that construction reads as it was, so constructing a solver with
  \<open>load_model\<close> set after a training run that started on an empty disk ends in
  \<open>FileNotFoundError\<close> as soon as the model itself could be built.
\<close>

theorem checkpoint_load_misses_saved_file:
  "checkpoint_save_path (s_args s) \<noteq> checkpoint_load_path (s_args s)
   \<and> snd (snd (train env d s)) (checkpoint_load_path (s_args s))
        = d (checkpoint_load_path (s_args s))
   \<and> fst (Solver_init env (snd (snd (train env Map.empty s)))
            ((s_args s)\<lparr>load_model := True\<rparr>) trl tel)
        = (case vit_init env (Solver_model_kwargs (s_args s)) of
             Inl e \<Rightarrow> Inl e | Inr p \<Rightarrow> Inl FileNotFoundError)"
proof -
  have diff: "checkpoint_load_path (s_args s) \<noteq> checkpoint_save_path (s_args s)"
    using checkpoint_paths_differ [of "s_args s"] by simp
  have keep: "snd (snd (train env d0 s)) (checkpoint_load_path (s_args s))
      = d0 (checkpoint_load_path (s_args s))" for d0
    using diff by (rule train_disk)
  have kw: "Solver_model_kwargs ((s_args s)\<lparr>load_model := True\<rparr>)
      = Solver_model_kwargs (s_args s)"
    by (simp add: Solver_model_kwargs_def)
  have lp: "checkpoint_load_path ((s_args s)\<lparr>load_model := True\<rparr>)
      = checkpoint_load_path (s_args s)"
    by (simp add: checkpoint_load_path_def)
  have "fst (Solver_init env (snd (snd (train env Map.empty s)))
            ((s_args s)\<lparr>load_model := True\<rparr>) trl tel)
        = (case vit_init env (Solver_model_kwargs (s_args s)) of
             Inl e \<Rightarrow> Inl e | Inr p \<Rightarrow> Inl FileNotFoundError)"
    unfolding Solver_init_def kw lp
    by (simp add: torch_load_def keep [of Map.empty] Let_def split: sum.splits)
  with diff keep [of d] show ?thesis
    by simp
qed

subsection \<open>Arguments of the model constructor\<close>

text \<open>
  C2 (counterexample). The claim asks that the seven architecture arguments of the
  constructor follow the configuration record. For the record \<open>wide_config\<close> every one
  of the seven arguments differs from the record's field.
\<close>

theorem Solver_model_kwargs_ignore_config:
  "kw_embed_dim (Solver_model_kwargs wide_config) \<noteq> embed_dim wide_config
   \<and> kw_n_layers (Solver_model_kwargs wide_config) \<noteq> n_layers wide_config
   \<and> kw_n_attention_heads (Solver_model_kwargs wide_config) \<noteq> n_attention_heads wide_config
   \<and> kw_forward_mul (Solver_model_kwargs wide_config) \<noteq> forward_mul wide_config
   \<and> kw_image_size (Solver_model_kwargs wide_config) \<noteq> image_size wide_config
   \<and> kw_patch_size (Solver_model_kwargs wide_config) \<noteq> patch_size wide_config
   \<and> kw_dropout (Solver_model_kwargs wide_config) \<noteq> dropout wide_config"
  by (simp add: Solver_model_kwargs_def wide_config_def default_cli_args_def
      args.extend_def cli_args.extend_def args.fields_def config.fields_def)

text \<open>
  C2 (amended). For every record, whatever further fields it carries, the constructor
  receives the built-in values \<open>embed_dim = 128\<close>, \<open>n_layers = 6\<close>,
  \<open>n_attention_heads = 4\<close>, \<open>forward_mul = 2\<close> and \<open>dropout = 0.1\<close>: the five
  architecture fields for which \<open>main.py\<close> defines no argument.
\<close>

theorem Solver_model_kwargs_fixed_architecture:
  "kw_embed_dim (Solver_model_kwargs a) = 128
   \<and> kw_n_layers (Solver_model_kwargs a) = 6
   \<and> kw_n_attention_heads (Solver_model_kwargs a) = 4
   \<and> kw_forward_mul (Solver_model_kwargs a) = 2
   \<and> kw_dropout (Solver_model_kwargs a) = 1 / 10"
  by (simp add: Solver_model_kwargs_def)

subsection \<open>Number of patches\<close>

text \<open>
  C3. For positive \<open>image_size\<close> and \<open>patch_size\<close>, \<open>update_args\<close> returns normally and
  sets \<open>n_patches\<close> to the square of the quotient of the two: the integer quotient of
  Python's \<open>//\<close>, which is the exact quotient whenever \<open>patch_size\<close> divides
  \<open>image_size\<close>. The sequence length is one more.
\<close>

theorem update_args_n_patches:
  assumes "0 < image_size a" and "0 < patch_size a"
  shows "map_sum id n_patches (update_args cuda a) = Inr ((image_size a div patch_size a) ^ 2)
     \<and> map_sum id (\<lambda>r. sequence_length (n_patches r)) (update_args cuda a)
          = Inr ((image_size a div patch_size a) ^ 2 + 1)
     \<and> (patch_size a dvd image_size a \<longrightarrow>
          map_sum id (\<lambda>r. real_of_int (n_patches r)) (update_args cuda a)
            = Inr ((real_of_int (image_size a) / real_of_int (patch_size a)) ^ 2))"
  using assms
  by (auto simp add: update_args_def cli_args.extend_def args.fields_def real_of_int_div
      sequence_length_def)

text \<open>
  C3, at the defaults of the parser: \<open>image_size = 32\<close> and \<open>patch_size = 4\<close> give 64
  patches and a sequence of 65 tokens.
\<close>

theorem update_args_n_patches_witness:
  "0 < image_size default_cli_args \<and> 0 < patch_size default_cli_args
   \<and> patch_size default_cli_args dvd image_size default_cli_args
   \<and> map_sum id n_patches (update_args False default_cli_args) = Inr 64
   \<and> map_sum id (\<lambda>r. sequence_length (n_patches r)) (update_args False default_cli_args)
        = Inr 65
   \<and> map_sum id (\<lambda>r. real_of_int (n_patches r)) (update_args False default_cli_args)
        = Inr 64"
proof -
  have pos: "0 < image_size default_cli_args" "0 < patch_size default_cli_args"
    by (simp_all add: default_cli_args_def)
  have dv: "patch_size default_cli_args dvd image_size default_cli_args"
    by (simp add: default_cli_args_def)
  show ?thesis
    using pos dv update_args_n_patches [OF pos, of False]
    by (simp add: default_cli_args_def)
qed

subsection \<open>The value that Solver.test returns\<close>

text \<open>
  C9. Whenever the evaluation of the train loader, if it is asked for, ends without an
  exception, \<open>Solver.test\<close> returns exactly what \<open>test_dataset\<close> gives on the test loader
  (the pair, or the exception of that evaluation), whatever the flag; with the flag set
  it prints the train-loader line before what it prints otherwise.
\<close>

theorem test_returns_test_metrics:
  assumes "tr \<longrightarrow> \<not> isl (test_dataset env s (train_loader s))"
  shows "fst (test env s tr) = test_dataset env s (test_loader s)
     \<and> snd (test env s tr) =
         (if tr
          then (case test_dataset env s (train_loader s) of
                  Inr ((acc, loss), s1) \<Rightarrow> [TrainMetrics acc loss] | Inl e \<Rightarrow> [])
          else []) @ snd (test env s False)"
proof (cases tr)
  case False
  then show ?thesis
    by (auto simp add: test_def split: sum.splits prod.splits)
next
  case True
  with assms obtain m s1 where ev: "test_dataset env s (train_loader s) = Inr (m, s1)"
    by (cases "test_dataset env s (train_loader s)") auto
  then have s1: "s1 = s\<lparr>training := False\<rparr>"
    by (rule test_dataset_state)
  obtain acc loss where m: "m = (acc, loss)" by (cases m)
  show ?thesis
    using True ev
    unfolding test_def s1 m
    by (auto simp add: test_dataset_mode split: sum.splits prod.splits)
qed

text \<open>
  C9, on the concrete instance with the flag set: the train loader is evaluated without
  an exception, and the returned pair is the one of the test loader.
\<close>

theorem test_returns_test_metrics_witness:
  "\<not> isl (test_dataset toy_env toy_solver (train_loader toy_solver))
   \<and> fst (test toy_env toy_solver True)
       = Inr ((Num (1 / 2), Num 0), toy_solver\<lparr>training := False\<rparr>)
   \<and> snd (test toy_env toy_solver True)
       = TrainMetrics (Num (1 / 2)) (Num 0) # snd (test toy_env toy_solver False)"
proof -
  have ev: "test_dataset toy_env toy_solver [([5 / 2, 3 / 2], [1, 0])]
      = Inr ((Num (1 / 2), Num 0), toy_solver\<lparr>training := False\<rparr>)"
    by (simp add: test_dataset_def toy_env_def toy_solver_def torch_cat_def row_argmax_def
        accuracy_score_def mean_bools_def)
  have loaders: "train_loader toy_solver = [([5 / 2, 3 / 2], [1, 0])]"
    "test_loader toy_solver = [([5 / 2, 3 / 2], [1, 0])]"
    by (simp_all add: toy_solver_def)
  have ok: "True \<longrightarrow> \<not> isl (test_dataset toy_env toy_solver (train_loader toy_solver))"
    by (simp add: loaders ev)
  show ?thesis
    using test_returns_test_metrics [OF ok]
    by (simp add: loaders ev)
qed

subsection \<open>The best accuracy printed by Solver.train\<close>

text \<open>
  C10. When the test loader yields at least one sample, the test accuracies that a run
  of \<open>Solver.train\<close> prints are numbers, and the best accuracies it prints, one after
  each of them, are the maxima of the accuracies printed so far: the k-th best value is
  the maximum of the first k accuracies. The sequence of best values never decreases.
  This holds for the lines of a run that an exception ends as well.
\<close>

theorem train_best_acc_running_max:
  assumes "0 < n_samples (test_loader s)"
  shows "\<exists>accs. test_accs (fst (snd (train env d s))) = map Num accs
     \<and> best_accs (fst (snd (train env d s))) = map Num (running_max accs)
     \<and> sorted (running_max accs)"
proof -
  obtain r out d' where run: "train env d s = (r, out, d')"
    by (cases "train env d s") auto
  have "out = [] \<or> (\<exists>opt1. train_loop env [0..<nat (epochs (s_args s))] (opt1, Num 0, d, s)
      = (r, out, d'))"
    using run by (auto simp add: train_def Let_def split: sum.splits if_splits)
  then have "\<exists>accs. (\<forall>a\<in>set accs. 0 \<le> a) \<and> test_accs out = map Num accs
        \<and> best_accs out = map Num (run_max 0 accs)"
  proof
    assume "out = []"
    then show ?thesis
      by (auto intro: exI [of _ "[]"])
  next
    assume "\<exists>opt1. train_loop env [0..<nat (epochs (s_args s))] (opt1, Num 0, d, s)
      = (r, out, d')"
    then obtain opt1 where
      "train_loop env [0..<nat (epochs (s_args s))] (opt1, Num 0, d, s) = (r, out, d')"
      by blast
    from train_loop_inv [OF this assms] show ?thesis .
  qed
  then obtain accs where accs: "\<forall>a\<in>set accs. 0 \<le> a" "test_accs out = map Num accs"
    "best_accs out = map Num (run_max 0 accs)"
    by blast
  from accs(1) have "run_max 0 accs = running_max accs"
    by (rule run_max_running_max)
  with accs run run_max_sorted [of 0 accs] show ?thesis
    by auto
qed

text \<open>
  C10, on the concrete instance: three epochs with test accuracies 1/2, 1 and 1/2 print
  the best values 1/2, 1 and 1.
\<close>

theorem train_best_acc_running_max_witness:
  "0 < n_samples (test_loader toy_solver)
   \<and> (\<exists>accs. test_accs (fst (snd (train toy_env Map.empty toy_solver))) = map Num accs
        \<and> best_accs (fst (snd (train toy_env Map.empty toy_solver)))
            = map Num (running_max accs)
        \<and> sorted (running_max accs))
   \<and> test_accs (fst (snd (train toy_env Map.empty toy_solver)))
        = [Num (1 / 2), Num 1, Num (1 / 2)]
   \<and> best_accs (fst (snd (train toy_env Map.empty toy_solver))) = [Num (1 / 2), Num 1, Num 1]"
proof -
  have samples: "0 < n_samples (test_loader toy_solver)"
    by (simp add: n_samples_def toy_solver_def)
  have run: "fst (snd (train toy_env Map.empty toy_solver))
      = [BatchLog 1 3 1 1 (Num 0) (Num (1 / 2)), TestMetrics (Num (1 / 2)) (Num 0),
         BestAcc (Num (1 / 2)),
         BatchLog 2 3 1 1 (Num 0) (Num (1 / 2)), TestMetrics (Num 1) (Num 0),
         BestAcc (Num 1),
         BatchLog 3 3 1 1 (Num 0) (Num 1), TestMetrics (Num (1 / 2)) (Num 0),
         BestAcc (Num 1)]"
    by (simp add: train_def train_epoch_def test_def test_dataset_def toy_env_def
        toy_solver_def torch_cat_def row_argmax_def accuracy_score_def mean_bools_def
        toy_args_def default_cli_args_def cli_args.extend_def args.fields_def
        upt_rec torch_eq_def py_sum_def py_max_def torch_save_def Let_def)
  show ?thesis
    using samples train_best_acc_running_max [OF samples, of toy_env Map.empty]
    by (simp add: run)
qed

section \<open>Properties of the model of vit_model.py\<close>

subsection \<open>Helper lemmas\<close>

lemma rope_pairs_length: "length (rope_pairs d pos i v) = length v"
  by (induction d pos i v rule: rope_pairs.induct) simp_all

lemma rotation_squares_gen:
  "(x * c - y * s)\<^sup>2 + (x * s + y * c)\<^sup>2 = (x\<^sup>2 + y\<^sup>2) * (s\<^sup>2 + c\<^sup>2)"
  for x y c s :: real
  by (simp add: power2_sum power2_diff power_mult_distrib algebra_simps)

lemma rotation_squares:
  "(x * cos t - y * sin t)\<^sup>2 + (x * sin t + y * cos t)\<^sup>2 = x\<^sup>2 + y\<^sup>2"
  for x y t :: real
  by (simp only: rotation_squares_gen sin_cos_squared_add mult_1_right)

lemma rope_pairs_squares: "(\<Sum>x\<leftarrow>rope_pairs d pos i v. x\<^sup>2) = (\<Sum>x\<leftarrow>v. x\<^sup>2)"
proof (induction d pos i v rule: rope_pairs.induct)
  case (1 d pos i x y rest)
  then show ?case
    using rotation_squares [of x "pos_angle d pos i" y] by simp
qed simp_all


lemma map_length_replicate:
  "\<forall>row\<in>set xs. length row = d \<Longrightarrow> map length xs = replicate (length xs) d"
  by (induction xs) simp_all

lemma has_shape_lengths: "has_shape L d xs \<Longrightarrow> map length xs = replicate L d"
  by (auto simp add: has_shape_def list_all_iff map_length_replicate)

lemma has_shape_row: "has_shape L d xs \<Longrightarrow> r \<in> set xs \<Longrightarrow> length r = d"
  by (simp add: has_shape_def list_all_iff)

lemma add_positions_shape:
  assumes "has_shape L d seq" and "has_shape L d P"
  shows "\<exists>out. add_positions seq P = Inr out \<and> has_shape L d out"
proof -
  from assms have eq: "map length seq = map length P"
    by (simp add: has_shape_lengths)
  from assms have len: "length seq = L" "length P = L"
    by (simp_all add: has_shape_def)
  have "has_shape L d (map2 (map2 (+)) seq P)"
    unfolding has_shape_def list_all_iff
  proof (intro conjI ballI)
    show "length (map2 (map2 (+)) seq P) = L"
      using len by simp
  next
    fix row assume "row \<in> set (map2 (map2 (+)) seq P)"
    then obtain a b where ab: "(a, b) \<in> set (zip seq P)" and row: "row = map2 (+) a b"
      by auto
    from ab have "a \<in> set seq" "b \<in> set P"
      by (auto dest: set_zip_leftD set_zip_rightD)
    with assms have "length a = d" "length b = d"
      by (auto dest: has_shape_row)
    with row show "length row = d"
      by simp
  qed
  with eq show ?thesis
    by (simp add: add_positions_def)
qed

lemma apply_pos_shape:
  assumes "has_shape L d seq" and "pos_fits pm L d"
  shows "\<exists>out. apply_pos pm seq = Inr out \<and> has_shape L d out"
  using assms by (cases pm) (auto simp add: pos_fits_def intro: add_positions_shape)

lemma rope_seq_shape: "has_shape L d Q \<Longrightarrow> has_shape L d (rope_seq Q)"
  by (auto simp add: has_shape_def list_all_iff rope_seq_def rope_rotate_def rope_pairs_length
      dest: set_zip_rightD)

lemma attention_logits_shape:
  assumes "has_shape L dh Q" and "has_shape L dh K"
  shows "has_shape L L (attention_logits pm dh Q K)"
proof -
  from assms have "length Q = L" "length K = L" "length (rope_seq Q) = L" "length (rope_seq K) = L"
    by (simp_all add: has_shape_def rope_seq_def)
  then show ?thesis
    by (cases pm) (simp_all add: attention_logits_def has_shape_def list_all_iff Let_def)
qed

lemma attention_head_shape:
  assumes "has_shape L dh Q" and "has_shape L dh K"
  shows "has_shape L dh (attention_head pm dh Q K V)"
  using attention_logits_shape [OF assms, of pm]
  by (simp add: attention_head_def has_shape_def list_all_iff)

lemma multi_head_attention_shape:
  "length X = L \<Longrightarrow> length Wo = d \<Longrightarrow>
     has_shape L d (multi_head_attention pm n dh Wq Wk Wv Wo X)"
  by (simp add: multi_head_attention_def has_shape_def list_all_iff linear_def Let_def)

lemma init_matrix_shape: "has_shape r c (init_matrix rnd r c)"
  by (simp add: init_matrix_def has_shape_def list_all_iff)

lemma sinusoidal_table_shape: "has_shape L d (sinusoidal_table L d)"
  by (simp add: sinusoidal_table_def has_shape_def list_all_iff)

lemma make_pos_fits: "pos_fits (make_pos rnd c) (config_seq_len c) (nat (mc_embed_dim c))"
  by (cases "mc_pos_embed c")
    (simp_all add: make_pos_def pos_fits_def init_matrix_shape sinusoidal_table_shape)


subsection \<open>Configuration errors\<close>

text \<open>
  C5. In the model of the constructor, an odd embedding dimension under the sinusoidal
  or the rope variant, and an embedding dimension that the number of heads does not
  divide, make construction end in \<open>ConfigurationError\<close>, so no model exists on which a
  forward pass could run; and a forward pass on a constructed model never ends in
  \<open>ConfigurationError\<close>.
\<close>

theorem VisionTransformer_init_rejects_bad_config:
  "(((mc_pos_embed c = PosSinusoidal \<or> mc_pos_embed c = PosRope) \<and> odd (mc_embed_dim c))
      \<or> \<not> mc_n_attention_heads c dvd mc_embed_dim c
     \<longrightarrow> VisionTransformer_init rnd w0 c = Inl ConfigurationError)
   \<and> (VisionTransformer_init rnd w0 c = Inr m
     \<longrightarrow> vit_forward core m img \<noteq> Inl ConfigurationError)"
  by (auto simp add: VisionTransformer_init_def vit_forward_def)


text \<open>
  C5, on the scenario of the specification: embedding dimension 127 with the sinusoidal
  variant is rejected at construction; with 128 the model is built and its forward pass
  has no configuration error.
\<close>

theorem VisionTransformer_init_rejects_bad_config_witness:
  "mc_pos_embed (scenario_config PosSinusoidal 127) = PosSinusoidal
   \<and> odd (mc_embed_dim (scenario_config PosSinusoidal 127))
   \<and> VisionTransformer_init (\<lambda>r c. 0) () (scenario_config PosSinusoidal 127)
       = Inl ConfigurationError
   \<and> VisionTransformer_init (\<lambda>r c. 0) () (scenario_config PosSinusoidal 128)
       = Inr \<lparr>vit_config = scenario_config PosSinusoidal 128,
              vit_pos = make_pos (\<lambda>r c. 0) (scenario_config PosSinusoidal 128),
              vit_weights = ()\<rparr>
   \<and> vit_forward (\<lambda>m img. [])
        \<lparr>vit_config = scenario_config PosSinusoidal 128,
         vit_pos = make_pos (\<lambda>r c. 0) (scenario_config PosSinusoidal 128),
         vit_weights = ()\<rparr> []
       = Inl ShapeMismatchError"
proof -
  have bad: "mc_pos_embed (scenario_config PosSinusoidal 127) = PosSinusoidal"
    "odd (mc_embed_dim (scenario_config PosSinusoidal 127))"
    by (simp_all add: scenario_config_def)
  have good: "VisionTransformer_init (\<lambda>r c. 0) () (scenario_config PosSinusoidal 128)
       = Inr \<lparr>vit_config = scenario_config PosSinusoidal 128,
              vit_pos = make_pos (\<lambda>r c. 0) (scenario_config PosSinusoidal 128),
              vit_weights = ()\<rparr>"
    by (simp add: VisionTransformer_init_def scenario_config_def)
  have fwd: "vit_forward (\<lambda>m img. [])
        \<lparr>vit_config = scenario_config PosSinusoidal 128,
         vit_pos = make_pos (\<lambda>r c. 0) (scenario_config PosSinusoidal 128),
         vit_weights = ()\<rparr> []
       = Inl ShapeMismatchError"
    by (simp add: vit_forward_def image_shape_ok_def)
  show ?thesis
    using bad good fwd
      VisionTransformer_init_rejects_bad_config
        [of "scenario_config PosSinusoidal 127" "\<lambda>r c. 0" "()"]
      VisionTransformer_init_rejects_bad_config
        [of "scenario_config PosSinusoidal 128" "\<lambda>r c. 0" "()"
            "\<lparr>vit_config = scenario_config PosSinusoidal 128,
              vit_pos = make_pos (\<lambda>r c. 0) (scenario_config PosSinusoidal 128),
              vit_weights = ()\<rparr>"
            "\<lambda>m img. []" "[]"]
    by simp
qed

subsection \<open>Shape invariance\<close>

text \<open>
  C6. For each of the five variants and a sequence of shape (L, d): applying the
  positional embedding whose parameters are sized for that shape returns a sequence of
  shape (L, d); multi-head attention with the variant's bias or rotation returns shape
  (L, d); inside a head of dimension dh the attention output has shape (L, dh), the
  biased logits have shape (L, L) and the rotated queries and keys keep shape (L, dh).
  The positional embedding that construction builds is sized for the configured
  sequence length and embedding dimension.
\<close>

theorem positional_variants_preserve_shape:
  assumes "has_shape L d seq" and "pos_fits pm L d" and "length Wo = d"
    and "has_shape L dh Q" and "has_shape L dh K" and "has_shape L dh V"
  shows "(\<exists>out. apply_pos pm seq = Inr out \<and> has_shape L d out)
     \<and> has_shape L d (multi_head_attention pm n dh Wq Wk Wv Wo seq)
     \<and> has_shape L dh (attention_head pm dh Q K V)
     \<and> has_shape L L (attention_logits pm dh Q K)
     \<and> has_shape L dh (rope_seq Q) \<and> has_shape L dh (rope_seq K)
     \<and> pos_fits (make_pos rnd c) (config_seq_len c) (nat (mc_embed_dim c))"
proof -
  from assms(1) have "length seq = L"
    by (simp add: has_shape_def)
  then have "has_shape L d (multi_head_attention pm n dh Wq Wk Wv Wo seq)"
    using assms(3) by (rule multi_head_attention_shape)
  with assms show ?thesis
    by (simp add: apply_pos_shape attention_head_shape attention_logits_shape
        rope_seq_shape make_pos_fits)
qed


text \<open>
  C6, on a sequence of two positions and two dimensions, with a learned matrix for the
  additive part and with each of the two variants that act inside attention.
\<close>

theorem positional_variants_preserve_shape_witness:
  "has_shape 2 2 [[1, 2], [3, 4]] \<and> pos_fits (LearnPE [[1, 1], [1, 1]]) 2 2
   \<and> apply_pos (LearnPE [[1, 1], [1, 1]]) [[1, 2], [3, 4]] = Inr [[2, 3], [4, 5]]
   \<and> has_shape 2 2 (attention_head RopePE 2 [[1, 2], [3, 4]] [[1, 2], [3, 4]] [[1, 2], [3, 4]])
   \<and> has_shape 2 2
        (multi_head_attention (RelativePE 2 [[1, 0], [0, 1], [1, 1], [1, 0], [0, 1]]) 1 2
           [[1, 0], [0, 1]] [[1, 0], [0, 1]] [[1, 0], [0, 1]] [[1, 0], [0, 1]]
           [[1, 2], [3, 4]])"
proof -
  have sh: "has_shape 2 2 [[1, 2], [3, 4]]"
    by (simp add: has_shape_def)
  have fits: "pos_fits (LearnPE [[1, 1], [1, 1]]) 2 2" "pos_fits RopePE 2 2"
    "pos_fits (RelativePE 2 [[1, 0], [0, 1], [1, 1], [1, 0], [0, 1]]) 2 2"
    by (simp_all add: pos_fits_def has_shape_def)
  have wo: "length [[1, 0], [0, 1 :: real]] = 2"
    by simp
  have ev: "apply_pos (LearnPE [[1, 1], [1, 1]]) [[1, 2], [3, 4]] = Inr [[2, 3], [4, 5]]"
    by (simp add: add_positions_def)
  show ?thesis
    using sh fits(1) ev
      positional_variants_preserve_shape [OF sh fits(1) wo sh sh sh]
      positional_variants_preserve_shape [OF sh fits(2) wo sh sh sh]
      positional_variants_preserve_shape [OF sh fits(3) wo sh sh sh,
        of 1 "[[1, 0], [0, 1]]" "[[1, 0], [0, 1]]" "[[1, 0], [0, 1]]"]
    by simp
qed

subsection \<open>Rope rotation\<close>

text \<open>
  C7. At every position, the rope rotation of a vector of even length has the Euclidean
  norm of the vector, and its length.
\<close>

theorem rope_rotate_preserves_norm:
  assumes "even (length v)"
  shows "euclidean_norm (rope_rotate pos v) = euclidean_norm v
     \<and> length (rope_rotate pos v) = length v"
  by (simp add: euclidean_norm_def rope_rotate_def rope_pairs_squares rope_pairs_length)


text \<open>C7, for the vector (3, 4) at position 7: the rotated vector has norm 5.\<close>

theorem rope_rotate_preserves_norm_witness:
  "even (length [3, 4 :: real]) \<and> euclidean_norm (rope_rotate 7 [3, 4]) = 5
   \<and> length (rope_rotate 7 [3, 4]) = 2"
proof -
  have ev: "even (length [3, 4 :: real])" by simp
  have "euclidean_norm [3, 4] = sqrt (5\<^sup>2)"
    by (simp add: euclidean_norm_def)
  then have n: "euclidean_norm [3, 4] = 5"
    by simp
  show ?thesis
    using rope_rotate_preserves_norm [OF ev, of 7] n by simp
qed


subsection \<open>Relative index\<close>

text \<open>
  C8. For a distance bound \<open>k\<close> that is not negative, the relative index of positions
  \<open>i\<close> and \<open>j\<close> is \<open>clip(j - i, -k, k) + k\<close>; it lies between 0 and \<open>2k\<close>, so it is a row
  of the table of \<open>2k + 1\<close> rows; every distance of at least \<open>k\<close> has the index \<open>2k\<close> and
  every distance of at most \<open>-k\<close> the index 0.
\<close>

theorem relative_index_saturates:
  assumes "0 \<le> k"
  shows "relative_index k i j = clip (j - i) (- k) k + k
     \<and> 0 \<le> relative_index k i j \<and> relative_index k i j \<le> 2 * k
     \<and> (k \<le> j - i \<longrightarrow> relative_index k i j = 2 * k)
     \<and> (j - i \<le> - k \<longrightarrow> relative_index k i j = 0)"
  using assms by (auto simp add: relative_index_def clip_def)


text \<open>
  C8, for \<open>k = 2\<close>: distance 2 and distance 5 have the same index 4, and the distances
  -5 and -2 the index 0.
\<close>

theorem relative_index_saturates_witness:
  "(0::int) \<le> 2 \<and> relative_index 2 0 2 = 4 \<and> relative_index 2 0 5 = 4
   \<and> relative_index 2 0 2 = relative_index 2 0 5
   \<and> relative_index 2 5 0 = 0 \<and> relative_index 2 2 0 = 0"
proof -
  have k: "(0::int) \<le> 2" by simp
  show ?thesis
    using relative_index_saturates [OF k, of 0 2] relative_index_saturates [OF k, of 0 5]
      relative_index_saturates [OF k, of 5 0] relative_index_saturates [OF k, of 2 0]
    by simp
qed

end
